theory Spec2Isabelle
  imports Main
begin

section \<open>Value types of the domain model\<close>

text \<open>
  The enumeration \<open>Location\<close> of \<^verbatim>\<open>domainmodel.py\<close>. Every member's value is its own
  name, so \<open>Location_value\<close> (the attribute \<^verbatim>\<open>.value\<close>) and \<open>Location_getitem\<close> (the
  lookup by name \<^verbatim>\<open>Location[name]\<close>, which raises \<^verbatim>\<open>KeyError\<close> for a string that names
  no member) are inverse to each other on the members.
\<close>

datatype Location =
  HAMBURG | HONGKONG | NEWYORK | STOCKHOLM | TOKYO | NLRTM | USDAL | AUMEL

fun Location_value :: "Location \<Rightarrow> string" where
  "Location_value HAMBURG = ''HAMBURG''"
| "Location_value HONGKONG = ''HONGKONG''"
| "Location_value NEWYORK = ''NEWYORK''"
| "Location_value STOCKHOLM = ''STOCKHOLM''"
| "Location_value TOKYO = ''TOKYO''"
| "Location_value NLRTM = ''NLRTM''"
| "Location_value USDAL = ''USDAL''"
| "Location_value AUMEL = ''AUMEL''"

definition Location_getitem :: "string \<Rightarrow> Location option" where
  "Location_getitem name =
     (if name = ''HAMBURG'' then Some HAMBURG
      else if name = ''HONGKONG'' then Some HONGKONG
      else if name = ''NEWYORK'' then Some NEWYORK
      else if name = ''STOCKHOLM'' then Some STOCKHOLM
      else if name = ''TOKYO'' then Some TOKYO
      else if name = ''NLRTM'' then Some NLRTM
      else if name = ''USDAL'' then Some USDAL
      else if name = ''AUMEL'' then Some AUMEL
      else None)"

text \<open>
  A \<open>Leg\<close> and an \<open>Itinerary\<close> hold their places as strings (the constructor arguments
  are annotated \<^verbatim>\<open>str\<close>), not as members of \<open>Location\<close>. The fields carry a prefix
  because the cargo has attributes of the same names.
\<close>

record Leg =
  leg_origin :: string
  leg_destination :: string
  leg_voyage_number :: string

record Itinerary =
  itinerary_origin :: string
  itinerary_destination :: string
  legs :: "Leg list"

datatype HandlingActivity = RECEIVE | LOAD | UNLOAD | CLAIM

text \<open>
  The next expected activity is a Python tuple of two or of three components; the third
  component is a voyage number. \<^verbatim>\<open>None\<close> is the \<open>None\<close> of the option type around it.
\<close>

datatype ExpectedActivity =
  Activity2 HandlingActivity Location
| Activity3 HandlingActivity Location "string option"

type_synonym NextExpectedActivity = "ExpectedActivity option"

text \<open>
  Points in time are counted in microseconds, the resolution of \<^verbatim>\<open>datetime\<close>;
  \<open>timedelta_weeks n\<close> is \<^verbatim>\<open>timedelta(weeks=n)\<close>. A reading of \<^verbatim>\<open>datetime.now()\<close> is a
  wall-clock time, far from the largest \<^verbatim>\<open>datetime\<close>, so the sum of a reading and one
  week is taken without a range check.
\<close>

type_synonym datetime = int

definition timedelta_weeks :: "int \<Rightarrow> int" where
  "timedelta_weeks n = n * 604800000000"

section \<open>The registered routes\<close>

definition route_HONGKONG_STOCKHOLM :: Itinerary where
  "route_HONGKONG_STOCKHOLM =
     \<lparr>itinerary_origin = ''HONGKONG'', itinerary_destination = ''STOCKHOLM'',
      legs = [\<lparr>leg_origin = ''HONGKONG'', leg_destination = ''NEWYORK'', leg_voyage_number = ''V1''\<rparr>,
              \<lparr>leg_origin = ''NEWYORK'', leg_destination = ''STOCKHOLM'', leg_voyage_number = ''V2''\<rparr>]\<rparr>"

definition route_TOKYO_STOCKHOLM :: Itinerary where
  "route_TOKYO_STOCKHOLM =
     \<lparr>itinerary_origin = ''TOKYO'', itinerary_destination = ''STOCKHOLM'',
      legs = [\<lparr>leg_origin = ''TOKYO'', leg_destination = ''HAMBURG'', leg_voyage_number = ''V3''\<rparr>,
              \<lparr>leg_origin = ''HAMBURG'', leg_destination = ''STOCKHOLM'', leg_voyage_number = ''V4''\<rparr>]\<rparr>"

definition REGISTERED_ROUTES :: "string \<times> string \<Rightarrow> Itinerary list option" where
  "REGISTERED_ROUTES key =
     (if key = (''HONGKONG'', ''STOCKHOLM'') then Some [route_HONGKONG_STOCKHOLM]
      else if key = (''TOKYO'', ''STOCKHOLM'') then Some [route_TOKYO_STOCKHOLM]
      else None)"

section \<open>The cargo aggregate\<close>

text \<open>
  The attributes that \<^verbatim>\<open>Cargo.__init__\<close> sets. The two statuses are strings in the
  source and stay strings here.
\<close>

record Cargo =
  origin :: Location
  destination :: Location
  arrival_deadline :: datetime
  transport_status :: string
  routing_status :: string
  is_misdirected :: bool
  estimated_time_of_arrival :: "datetime option"
  next_expected_activity :: NextExpectedActivity
  route :: "Itinerary option"
  last_known_location :: "Location option"
  current_voyage_number :: "string option"

definition new_booking :: "Location \<Rightarrow> Location \<Rightarrow> datetime \<Rightarrow> Cargo" where
  "new_booking orig dest deadline =
     \<lparr>origin = orig, destination = dest, arrival_deadline = deadline,
      transport_status = ''NOT_RECEIVED'', routing_status = ''NOT_ROUTED'',
      is_misdirected = False, estimated_time_of_arrival = None,
      next_expected_activity = None, route = None,
      last_known_location = None, current_voyage_number = None\<rparr>"

section \<open>Events and their mutations\<close>

text \<open>
  The payload of a handling event is a voyage number (\<^verbatim>\<open>Optional[str]\<close>), a location and
  a handling activity. Python does not check the annotation of the activity, and the
  mutation has a branch for a value that equals none of the four members (the string
  \<^verbatim>\<open>"LOAD"\<close>, say, is not equal to \<^verbatim>\<open>HandlingActivity.LOAD\<close>): \<open>NonMember\<close> is such a
  value. The tracking id of the payload is not read by the mutation and is left out.
\<close>

datatype ActivityValue = Member HandlingActivity | NonMember string

datatype Event =
  DestinationChanged Location
| RouteAssigned Itinerary
| HandlingEventRegistered "string option" Location ActivityValue

text \<open>
  What a mutation can raise: a failed \<^verbatim>\<open>assert\<close>, an index out of range, a name that is
  no member of \<open>Location\<close>, and the two exceptions the source raises itself ("Can't find
  leg with origin=... and voyage_number=..." and "Unsupported handling event: ...").
\<close>

datatype error =
  AssertionError
| IndexError
| KeyError string
| LegNotFound Location "string option"
| UnsupportedActivity ActivityValue

text \<open>
  The loop of the \<^verbatim>\<open>LOAD\<close> branch with its \<^verbatim>\<open>else\<close>: the legs are visited in order; the
  first leg whose origin is the value of the event's location and whose voyage number
  equals the event's gives the activity (or a \<^verbatim>\<open>KeyError\<close> when its destination names
  no location) and ends the loop; a loop that ends without such a leg raises.
\<close>

fun load_loop :: "Leg list \<Rightarrow> Location \<Rightarrow> string option \<Rightarrow> error + ExpectedActivity" where
  "load_loop [] location voyage = Inl (LegNotFound location voyage)"
| "load_loop (leg # rest) location voyage =
     (if leg_origin leg = Location_value location then
        (if Some (leg_voyage_number leg) = voyage then
           (case Location_getitem (leg_destination leg) of
              None \<Rightarrow> Inl (KeyError (leg_destination leg))
            | Some d \<Rightarrow> Inr (Activity3 UNLOAD d voyage))
         else load_loop rest location voyage)
      else load_loop rest location voyage)"

text \<open>
  The loop of the \<^verbatim>\<open>UNLOAD\<close> branch over \<^verbatim>\<open>enumerate(obj.route.legs)\<close>. The first
  argument is the whole list of legs, which \<^verbatim>\<open>legs[i + 1]\<close> indexes: an \<^verbatim>\<open>IndexError\<close>
  when the leg found is the last one. The loop has no \<^verbatim>\<open>else\<close>: when no leg has the
  event's voyage number nothing is assigned, which is the result \<open>Inr None\<close>.
\<close>

fun unload_loop ::
  "Leg list \<Rightarrow> (nat \<times> Leg) list \<Rightarrow> Location \<Rightarrow> string option \<Rightarrow> error + ExpectedActivity option"
where
  "unload_loop all_legs [] location voyage = Inr None"
| "unload_loop all_legs ((i, leg) # rest) location voyage =
     (if Some (leg_voyage_number leg) = voyage then
        (if i + 1 < length all_legs then
           (let next_leg = all_legs ! (i + 1) in
            case Location_getitem (leg_origin next_leg) of
              None \<Rightarrow> Inl (KeyError (leg_origin next_leg))
            | Some l \<Rightarrow>
                if l = location
                then Inr (Some (Activity3 LOAD location (Some (leg_voyage_number next_leg))))
                else Inl AssertionError)
         else Inl IndexError)
      else unload_loop all_legs rest location voyage)"

text \<open>
  The branches of \<^verbatim>\<open>HandlingEventRegistered.mutate\<close>, one definition each. The object
  is mutated in place, so a branch that raises leaves the assignments it has made
  before: the result is the object as the call leaves it, with the exception raised, if
  any.
\<close>

definition mutate_RECEIVE :: "Itinerary \<Rightarrow> Location \<Rightarrow> Cargo \<Rightarrow> Cargo \<times> error option" where
  "mutate_RECEIVE r location obj =
     (let obj1 = obj\<lparr>transport_status := ''IN_PORT''\<rparr>;
          obj2 = obj1\<lparr>last_known_location := Some location\<rparr>
      in case legs r of
           [] \<Rightarrow> (obj2, Some IndexError)
         | leg0 # _ \<Rightarrow>
             (obj2\<lparr>next_expected_activity :=
                      Some (Activity3 LOAD location (Some (leg_voyage_number leg0)))\<rparr>, None))"

definition mutate_LOAD ::
  "Itinerary \<Rightarrow> string option \<Rightarrow> Location \<Rightarrow> Cargo \<Rightarrow> Cargo \<times> error option" where
  "mutate_LOAD r voyage location obj =
     (let obj1 = obj\<lparr>transport_status := ''ONBOARD_CARRIER''\<rparr>;
          obj2 = obj1\<lparr>current_voyage_number := voyage\<rparr>
      in case load_loop (legs r) location voyage of
           Inl e \<Rightarrow> (obj2, Some e)
         | Inr a \<Rightarrow> (obj2\<lparr>next_expected_activity := Some a\<rparr>, None))"

definition mutate_UNLOAD ::
  "Itinerary \<Rightarrow> string option \<Rightarrow> Location \<Rightarrow> Cargo \<Rightarrow> Cargo \<times> error option" where
  "mutate_UNLOAD r voyage location obj =
     (let obj1 = obj\<lparr>current_voyage_number := None\<rparr>;
          obj2 = obj1\<lparr>last_known_location := Some location\<rparr>;
          obj3 = obj2\<lparr>transport_status := ''IN_PORT''\<rparr>
      in if location = destination obj3 then
           (obj3\<lparr>next_expected_activity := Some (Activity2 CLAIM location)\<rparr>, None)
         else if Location_value location \<in> set (map leg_destination (legs r)) then
           (case unload_loop (legs r) (enumerate 0 (legs r)) location voyage of
              Inl e \<Rightarrow> (obj3, Some e)
            | Inr None \<Rightarrow> (obj3, None)
            | Inr (Some a) \<Rightarrow> (obj3\<lparr>next_expected_activity := Some a\<rparr>, None))
         else
           (obj3\<lparr>is_misdirected := True, next_expected_activity := None\<rparr>, None))"

definition mutate_CLAIM :: "Cargo \<Rightarrow> Cargo \<times> error option" where
  "mutate_CLAIM obj =
     (obj\<lparr>next_expected_activity := None, transport_status := ''CLAIMED''\<rparr>, None)"

text \<open>
  The \<^verbatim>\<open>mutate\<close> methods of the three event classes. The first argument is the reading
  of \<^verbatim>\<open>datetime.now()\<close> at the moment of the call, which only \<open>RouteAssigned\<close> takes.
\<close>

fun mutate :: "datetime \<Rightarrow> Event \<Rightarrow> Cargo \<Rightarrow> Cargo \<times> error option" where
  "mutate now (DestinationChanged d) obj = (obj\<lparr>destination := d\<rparr>, None)"
| "mutate now (RouteAssigned r) obj =
     (obj\<lparr>route := Some r,
          routing_status := ''ROUTED'',
          estimated_time_of_arrival := Some (now + timedelta_weeks 1),
          next_expected_activity := Some (Activity2 RECEIVE (origin obj)),
          is_misdirected := False\<rparr>, None)"
| "mutate now (HandlingEventRegistered voyage location activity) obj =
     (case route obj of
        None \<Rightarrow> (obj, Some AssertionError)
      | Some r \<Rightarrow>
          (case activity of
             Member RECEIVE \<Rightarrow> mutate_RECEIVE r location obj
           | Member LOAD \<Rightarrow> mutate_LOAD r voyage location obj
           | Member UNLOAD \<Rightarrow> mutate_UNLOAD r voyage location obj
           | Member CLAIM \<Rightarrow> mutate_CLAIM obj
           | NonMember s \<Rightarrow> (obj, Some (UnsupportedActivity activity))))"

section \<open>Replaying events\<close>

text \<open>
  The projection of a cargo is what the event-sourcing library gets by calling the
  \<^verbatim>\<open>mutate\<close> of each recorded event, in order, on the object that the booking made.
  \<open>clock i\<close> is the reading of \<^verbatim>\<open>datetime.now()\<close> during the call for the event at
  position \<open>i\<close>. An exception ends the replay and leaves the object as the failed call
  left it.
\<close>

fun replay :: "(nat \<Rightarrow> datetime) \<Rightarrow> nat \<Rightarrow> Cargo \<Rightarrow> Event list \<Rightarrow> Cargo \<times> error option" where
  "replay clock i obj [] = (obj, None)"
| "replay clock i obj (e # es) =
     (case mutate (clock i) e obj of
        (obj', None) \<Rightarrow> replay clock (Suc i) obj' es
      | (obj', Some err) \<Rightarrow> (obj', Some err))"

definition reconstruct ::
  "(nat \<Rightarrow> datetime) \<Rightarrow> Location \<Rightarrow> Location \<Rightarrow> datetime \<Rightarrow> Event list \<Rightarrow> Cargo \<times> error option"
where
  "reconstruct clock orig dest deadline events =
     replay clock 0 (new_booking orig dest deadline) events"

text \<open>A clock that reads \<open>t\<close> at the first event and one microsecond more at each later one.\<close>

definition clock_from :: "datetime \<Rightarrow> nat \<Rightarrow> datetime" where
  "clock_from t i = t + int i"

definition without_eta :: "Cargo \<Rightarrow> Cargo" where
  "without_eta c = c\<lparr>estimated_time_of_arrival := None\<rparr>"

section \<open>Reachable states\<close>

text \<open>
  The states of a cargo: the state a booking makes, and every state that a successful
  mutation makes from one of them. The parameter \<open>G\<close> restricts the events that are
  applied: \<open>G c e\<close> says that event \<open>e\<close> may be applied in state \<open>c\<close>. The source has
  no such restriction (\<open>any_event\<close>).
\<close>

inductive reachable_under :: "(Cargo \<Rightarrow> Event \<Rightarrow> bool) \<Rightarrow> Cargo \<Rightarrow> bool"
  for G :: "Cargo \<Rightarrow> Event \<Rightarrow> bool" where
  booked: "reachable_under G (new_booking orig dest deadline)"
| applied: "reachable_under G c \<Longrightarrow> G c e \<Longrightarrow> mutate now e c = (c', None) \<Longrightarrow>
     reachable_under G c'"

definition any_event :: "Cargo \<Rightarrow> Event \<Rightarrow> bool" where
  "any_event c e = True"

definition reachable :: "Cargo \<Rightarrow> bool" where
  "reachable c = reachable_under any_event c"

text \<open>
  Three orders of events that a caller can keep: a cargo is received or claimed only
  while it is on no voyage; a misdirected cargo is not received, loaded or unloaded
  (it can be claimed, re-routed or re-destined); a claimed cargo gets no new route.
\<close>

fun off_carrier_at_receive_claim :: "Cargo \<Rightarrow> Event \<Rightarrow> bool" where
  "off_carrier_at_receive_claim c (HandlingEventRegistered v l (Member RECEIVE)) =
     (current_voyage_number c = None)"
| "off_carrier_at_receive_claim c (HandlingEventRegistered v l (Member CLAIM)) =
     (current_voyage_number c = None)"
| "off_carrier_at_receive_claim c e = True"

fun on_route_at_handling :: "Cargo \<Rightarrow> Event \<Rightarrow> bool" where
  "on_route_at_handling c (HandlingEventRegistered v l (Member RECEIVE)) = (\<not> is_misdirected c)"
| "on_route_at_handling c (HandlingEventRegistered v l (Member LOAD)) = (\<not> is_misdirected c)"
| "on_route_at_handling c (HandlingEventRegistered v l (Member UNLOAD)) = (\<not> is_misdirected c)"
| "on_route_at_handling c e = True"

fun unclaimed_at_routing :: "Cargo \<Rightarrow> Event \<Rightarrow> bool" where
  "unclaimed_at_routing c (RouteAssigned r) = (transport_status c \<noteq> ''CLAIMED'')"
| "unclaimed_at_routing c e = True"

section \<open>Legs that a handling event refers to\<close>

text \<open>The leg that a \<^verbatim>\<open>LOAD\<close> at a location onto a voyage looks for.\<close>

definition load_leg_matches :: "Location \<Rightarrow> string option \<Rightarrow> Leg \<Rightarrow> bool" where
  "load_leg_matches location voyage leg \<longleftrightarrow>
     leg_origin leg = Location_value location \<and> Some (leg_voyage_number leg) = voyage"

text \<open>An itinerary whose only leg ends at a place that is no member of \<open>Location\<close>.\<close>

definition route_HONGKONG_ATLANTIS :: Itinerary where
  "route_HONGKONG_ATLANTIS =
     \<lparr>itinerary_origin = ''HONGKONG'', itinerary_destination = ''ATLANTIS'',
      legs = [\<lparr>leg_origin = ''HONGKONG'', leg_destination = ''ATLANTIS'', leg_voyage_number = ''V1''\<rparr>]\<rparr>"

section \<open>Checking a run\<close>

text \<open>
  \<open>replay_admits G clock i obj es\<close>: in the replay of \<open>es\<close> from \<open>obj\<close> every event is
  one that \<open>G\<close> lets through in the state it meets, and every mutation succeeds.
\<close>

fun replay_admits ::
  "(Cargo \<Rightarrow> Event \<Rightarrow> bool) \<Rightarrow> (nat \<Rightarrow> datetime) \<Rightarrow> nat \<Rightarrow> Cargo \<Rightarrow> Event list \<Rightarrow> bool"
where
  "replay_admits G clock i obj [] = True"
| "replay_admits G clock i obj (e # es) =
     (G obj e \<and>
      (case mutate (clock i) e obj of
         (obj', None) \<Rightarrow> replay_admits G clock (Suc i) obj' es
       | (obj', Some err) \<Rightarrow> False))"

text \<open>
  The cargo of the test scenario after its first two steps: booked from Hongkong to
  Stockholm and assigned the registered route.
\<close>

definition routed_cargo :: Cargo where
  "routed_cargo =
     fst (reconstruct (clock_from 0) HONGKONG STOCKHOLM 0
            [RouteAssigned route_HONGKONG_STOCKHOLM])"

section \<open>Event sequences of the examples\<close>

text \<open>
  The handling steps of the test scenario up to the unloading in Tokyo, which is not on
  the route, and the whole scenario with the second route.
\<close>

definition events_loaded :: "Event list" where
  "events_loaded =
     [RouteAssigned route_HONGKONG_STOCKHOLM,
      HandlingEventRegistered None HONGKONG (Member RECEIVE),
      HandlingEventRegistered (Some ''V1'') HONGKONG (Member LOAD)]"

definition events_misdirected :: "Event list" where
  "events_misdirected =
     events_loaded @ [HandlingEventRegistered (Some ''V1'') TOKYO (Member UNLOAD)]"

definition events_scenario :: "Event list" where
  "events_scenario =
     events_misdirected @
     [RouteAssigned route_TOKYO_STOCKHOLM,
      HandlingEventRegistered (Some ''V3'') TOKYO (Member LOAD),
      HandlingEventRegistered (Some ''V3'') HAMBURG (Member UNLOAD),
      HandlingEventRegistered (Some ''V4'') HAMBURG (Member LOAD),
      HandlingEventRegistered (Some ''V4'') STOCKHOLM (Member UNLOAD),
      HandlingEventRegistered None STOCKHOLM (Member CLAIM)]"

text \<open>Sequences that no test has: events in an order the scenario does not take.\<close>

definition events_claim_on_voyage :: "Event list" where
  "events_claim_on_voyage =
     events_loaded @ [HandlingEventRegistered None HONGKONG (Member CLAIM)]"

definition events_receive_when_misdirected :: "Event list" where
  "events_receive_when_misdirected =
     events_misdirected @ [HandlingEventRegistered None TOKYO (Member RECEIVE)]"

definition events_route_after_claim :: "Event list" where
  "events_route_after_claim = events_scenario @ [RouteAssigned route_TOKYO_STOCKHOLM]"

text \<open>
  The cargo is re-destined to Tokyo after its route is assigned and then handled along
  the route, every report agreeing with the route, to the end of the last leg.
\<close>

definition events_redestined_loaded :: "Event list" where
  "events_redestined_loaded =
     [RouteAssigned route_HONGKONG_STOCKHOLM,
      DestinationChanged TOKYO,
      HandlingEventRegistered None HONGKONG (Member RECEIVE),
      HandlingEventRegistered (Some ''V1'') HONGKONG (Member LOAD),
      HandlingEventRegistered (Some ''V1'') NEWYORK (Member UNLOAD),
      HandlingEventRegistered (Some ''V2'') NEWYORK (Member LOAD)]"

definition events_redestined_unloaded :: "Event list" where
  "events_redestined_unloaded =
     events_redestined_loaded @ [HandlingEventRegistered (Some ''V2'') STOCKHOLM (Member UNLOAD)]"

section \<open>Auxiliary facts\<close>

lemmas mutate_branch_defs =
  mutate_RECEIVE_def mutate_LOAD_def mutate_UNLOAD_def mutate_CLAIM_def

lemmas run_defs =
  reconstruct_def new_booking_def clock_from_def timedelta_weeks_def
  route_HONGKONG_STOCKHOLM_def route_TOKYO_STOCKHOLM_def
  Location_getitem_def mutate_branch_defs Let_def
  events_loaded_def events_misdirected_def events_scenario_def

text \<open>The name of a member is looked up to that member, and only its name is.\<close>

lemma Location_getitem_value: "Location_getitem (Location_value l) = Some l"
  by (cases l) (simp_all add: Location_getitem_def)

lemma Location_getitem_Some: "Location_getitem s = Some l \<Longrightarrow> Location_value l = s"
  by (auto simp: Location_getitem_def split: if_splits)

text \<open>The exceptions that leave the two loops.\<close>

lemma load_loop_error:
  "load_loop ls loc v = Inl e \<Longrightarrow> e = LegNotFound loc v \<or> (\<exists>s. e = KeyError s)"
  by (induction ls) (auto split: if_splits option.splits)

lemma unload_loop_error:
  "unload_loop all_legs ils loc v = Inl e \<Longrightarrow>
   e = IndexError \<or> e = AssertionError \<or> (\<exists>s. e = KeyError s)"
  by (induction all_legs ils loc v rule: unload_loop.induct)
     (auto simp: Let_def split: if_splits option.splits)

text \<open>A replay that \<open>replay_admits\<close> accepts ends in a reachable state.\<close>

lemma replay_admits_reachable:
  "reachable_under G c \<Longrightarrow> replay_admits G clock i c es \<Longrightarrow>
   reachable_under G (fst (replay clock i c es))"
proof (induction es arbitrary: c i)
  case Nil
  then show ?case by simp
next
  case (Cons e es)
  obtain c' r where m: "mutate (clock i) e c = (c', r)"
    by (cases "mutate (clock i) e c")
  with Cons.prems(2) have g: "G c e" and r: "r = None"
    and rest: "replay_admits G clock (Suc i) c' es"
    by (auto split: option.splits)
  from Cons.prems(1) g m r have "reachable_under G c'"
    by (auto intro: reachable_under.applied)
  from Cons.IH[OF this rest] m r show ?case by simp
qed

lemma reconstruct_reachable:
  assumes "replay_admits G clock 0 (new_booking orig dest deadline) es"
  shows "reachable_under G (fst (reconstruct clock orig dest deadline es))"
  unfolding reconstruct_def
  using reachable_under.booked assms by (rule replay_admits_reachable)

text \<open>
  A property that holds after a booking and that every admitted, successful mutation
  keeps holds in every reachable state.
\<close>

lemma reachable_under_invariant:
  assumes "reachable_under G c"
    and init: "\<And>orig dest deadline. I (new_booking orig dest deadline)"
    and step: "\<And>c e now c'. I c \<Longrightarrow> G c e \<Longrightarrow> mutate now e c = (c', None) \<Longrightarrow> I c'"
  shows "I c"
  using assms(1)
proof (induction rule: reachable_under.induct)
  case (booked orig dest deadline)
  show ?case by (rule init)
next
  case (applied c e now c')
  from applied.IH applied.hyps(2,3) show ?case by (rule step)
qed

lemma routed_cargo_eq:
  "routed_cargo = \<lparr>origin = HONGKONG, destination = STOCKHOLM, arrival_deadline = 0,
      transport_status = ''NOT_RECEIVED'', routing_status = ''ROUTED'',
      is_misdirected = False, estimated_time_of_arrival = Some 604800000000,
      next_expected_activity = Some (Activity2 RECEIVE HONGKONG),
      route = Some route_HONGKONG_STOCKHOLM,
      last_known_location = None, current_voyage_number = None\<rparr>"
  by (simp add: routed_cargo_def reconstruct_def new_booking_def clock_from_def
      timedelta_weeks_def)

lemma routed_cargo_reachable: "reachable_under any_event routed_cargo"
  unfolding routed_cargo_def
  by (rule reconstruct_reachable) (simp add: any_event_def)

lemma failed_LOAD_V9:
  "mutate 0 (HandlingEventRegistered (Some ''V9'') HONGKONG (Member LOAD)) routed_cargo =
     (routed_cargo\<lparr>transport_status := ''ONBOARD_CARRIER'',
                   current_voyage_number := Some ''V9''\<rparr>,
      Some (LegNotFound HONGKONG (Some ''V9'')))"
  by (simp add: routed_cargo_eq mutate_LOAD_def route_HONGKONG_STOCKHOLM_def)

section \<open>A failed mutation\<close>

text \<open>
  C1, as amended. When the mutation of a handling event fails, the fields origin,
  destination, arrival deadline, routing status, misdirection flag, estimated time of
  arrival, next expected activity and route have the values they had before the call;
  a failed \<^verbatim>\<open>LOAD\<close> also leaves the last known location as it was; and a mutation that
  fails because the activity is not supported, or because the cargo has no route, leaves
  the whole state as it was. Nothing is said of the transport status, the last known location and the current
  voyage number otherwise: a branch assigns them before it comes to the step that can
  fail.
\<close>

theorem failed_handling_frame:
  assumes "mutate now (HandlingEventRegistered v loc act) c = (c', Some e)"
  shows "origin c' = origin c \<and> destination c' = destination c \<and>
    arrival_deadline c' = arrival_deadline c \<and> routing_status c' = routing_status c \<and>
    is_misdirected c' = is_misdirected c \<and>
    estimated_time_of_arrival c' = estimated_time_of_arrival c \<and>
    next_expected_activity c' = next_expected_activity c \<and> route c' = route c \<and>
    (act = Member LOAD \<longrightarrow> last_known_location c' = last_known_location c) \<and>
    (e = UnsupportedActivity act \<longrightarrow> c' = c) \<and>
    (route c = None \<longrightarrow> c' = c)"
proof (cases "route c")
  case None
  with assms show ?thesis by auto
next
  case (Some r)
  show ?thesis
  proof (cases act)
    case (NonMember s)
    with assms Some show ?thesis by auto
  next
    case (Member h)
    show ?thesis
    proof (cases h)
      case RECEIVE
      with assms Some Member show ?thesis
        by (auto simp: mutate_RECEIVE_def Let_def split: list.splits)
    next
      case LOAD
      with assms Some Member show ?thesis
        by (auto simp: mutate_LOAD_def Let_def split: sum.splits dest: load_loop_error)
    next
      case UNLOAD
      with assms Some Member show ?thesis
        by (auto simp: mutate_UNLOAD_def Let_def split: sum.splits option.splits if_splits
            dest: unload_loop_error)
    next
      case CLAIM
      with assms Some Member show ?thesis
        by (auto simp: mutate_CLAIM_def)
    qed
  qed
qed

text \<open>
  The frame at two failures on the routed cargo of the scenario, a \<^verbatim>\<open>LOAD\<close> onto a
  voyage that the route does not have and an activity given as a string, and at the
  failure of a \<^verbatim>\<open>RECEIVE\<close> on a cargo that has no route yet.
\<close>

theorem failed_handling_frame_witness:
  "mutate 0 (HandlingEventRegistered (Some ''V9'') HONGKONG (Member LOAD)) routed_cargo =
     (routed_cargo\<lparr>transport_status := ''ONBOARD_CARRIER'',
                   current_voyage_number := Some ''V9''\<rparr>,
      Some (LegNotFound HONGKONG (Some ''V9''))) \<and>
   next_expected_activity
     (routed_cargo\<lparr>transport_status := ''ONBOARD_CARRIER'',
                   current_voyage_number := Some ''V9''\<rparr>) =
     next_expected_activity routed_cargo \<and>
   last_known_location
     (routed_cargo\<lparr>transport_status := ''ONBOARD_CARRIER'',
                   current_voyage_number := Some ''V9''\<rparr>) =
     last_known_location routed_cargo \<and>
   mutate 0 (HandlingEventRegistered None HONGKONG (NonMember ''LOAD'')) routed_cargo =
     (routed_cargo, Some (UnsupportedActivity (NonMember ''LOAD''))) \<and>
   route (new_booking HONGKONG STOCKHOLM 0) = None \<and>
   mutate 0 (HandlingEventRegistered None HONGKONG (Member RECEIVE))
     (new_booking HONGKONG STOCKHOLM 0) =
     (new_booking HONGKONG STOCKHOLM 0, Some AssertionError)"
proof -
  have m: "mutate 0 (HandlingEventRegistered None HONGKONG (NonMember ''LOAD'')) routed_cargo =
     (routed_cargo, Some (UnsupportedActivity (NonMember ''LOAD'')))"
    by (simp add: routed_cargo_eq)
  have n: "route (new_booking HONGKONG STOCKHOLM 0) = None"
    by (simp add: new_booking_def)
  then have a: "mutate 0 (HandlingEventRegistered None HONGKONG (Member RECEIVE))
     (new_booking HONGKONG STOCKHOLM 0) =
     (new_booking HONGKONG STOCKHOLM 0, Some AssertionError)"
    by simp
  from failed_handling_frame [OF failed_LOAD_V9] failed_handling_frame [OF m]
    failed_handling_frame [OF a] failed_LOAD_V9 m n a
  show ?thesis by simp
qed

text \<open>
  C1 as it is stated fails: the routed cargo of the scenario is reachable and has a
  route; a \<^verbatim>\<open>LOAD\<close> in Hongkong onto voyage V9, which no leg has, raises; and the call
  leaves the transport status and the current voyage number changed.
\<close>

theorem failed_mutation_changes_state:
  "reachable routed_cargo \<and> route routed_cargo = Some route_HONGKONG_STOCKHOLM \<and>
   snd (mutate 0 (HandlingEventRegistered (Some ''V9'') HONGKONG (Member LOAD)) routed_cargo) =
     Some (LegNotFound HONGKONG (Some ''V9'')) \<and>
   transport_status routed_cargo = ''NOT_RECEIVED'' \<and>
   transport_status
     (fst (mutate 0 (HandlingEventRegistered (Some ''V9'') HONGKONG (Member LOAD)) routed_cargo)) =
     ''ONBOARD_CARRIER'' \<and>
   current_voyage_number routed_cargo = None \<and>
   current_voyage_number
     (fst (mutate 0 (HandlingEventRegistered (Some ''V9'') HONGKONG (Member LOAD)) routed_cargo)) =
     Some ''V9''"
proof -
  have "reachable routed_cargo"
    unfolding reachable_def by (rule routed_cargo_reachable)
  moreover have "route routed_cargo = Some route_HONGKONG_STOCKHOLM"
    and "transport_status routed_cargo = ''NOT_RECEIVED''"
    and "current_voyage_number routed_cargo = None"
    by (simp_all add: routed_cargo_eq)
  ultimately show ?thesis
    unfolding failed_LOAD_V9 by simp
qed

section \<open>Replaying the same events twice\<close>

text \<open>
  No mutation reads the estimated time of arrival, and only the clock reaches it: two
  states that agree apart from it are taken by the same event, at any two times, to two
  states that agree apart from it, with the same outcome.
\<close>

lemma mutate_ignores_eta:
  "snd (mutate t1 e (c\<lparr>estimated_time_of_arrival := x\<rparr>)) = snd (mutate t2 e c) \<and>
   without_eta (fst (mutate t1 e (c\<lparr>estimated_time_of_arrival := x\<rparr>))) =
     without_eta (fst (mutate t2 e c))"
proof (cases e)
  case (DestinationChanged d)
  then show ?thesis by (simp add: without_eta_def)
next
  case (RouteAssigned r)
  then show ?thesis by (simp add: without_eta_def)
next
  case (HandlingEventRegistered v l a)
  show ?thesis
  proof (cases a)
    case (NonMember s)
    with HandlingEventRegistered show ?thesis
      by (simp add: without_eta_def split: option.splits)
  next
    case (Member h)
    with HandlingEventRegistered show ?thesis
      by (cases h)
         (simp_all add: without_eta_def mutate_branch_defs Let_def
            split: option.splits sum.splits list.splits)
  qed
qed

lemma mutate_without_eta:
  assumes "without_eta c1 = without_eta c2"
  shows "snd (mutate t1 e c1) = snd (mutate t2 e c2) \<and>
    without_eta (fst (mutate t1 e c1)) = without_eta (fst (mutate t2 e c2))"
proof -
  have "c1 = (without_eta c1)\<lparr>estimated_time_of_arrival := estimated_time_of_arrival c1\<rparr>"
    by (simp add: without_eta_def)
  also have "\<dots> = c2\<lparr>estimated_time_of_arrival := estimated_time_of_arrival c1\<rparr>"
    by (simp add: assms) (simp add: without_eta_def)
  finally have "c1 = c2\<lparr>estimated_time_of_arrival := estimated_time_of_arrival c1\<rparr>" .
  then show ?thesis
    using mutate_ignores_eta [where c = c2 and x = "estimated_time_of_arrival c1"
        and ?t1.0 = t1 and ?t2.0 = t2 and e = e]
    by simp
qed

lemma replay_without_eta:
  "without_eta c1 = without_eta c2 \<Longrightarrow>
   snd (replay k1 i c1 es) = snd (replay k2 i c2 es) \<and>
   without_eta (fst (replay k1 i c1 es)) = without_eta (fst (replay k2 i c2 es))"
proof (induction es arbitrary: c1 c2 i)
  case Nil
  then show ?case by simp
next
  case (Cons e es)
  obtain d1 r1 where m1: "mutate (k1 i) e c1 = (d1, r1)" by (cases "mutate (k1 i) e c1")
  obtain d2 r2 where m2: "mutate (k2 i) e c2 = (d2, r2)" by (cases "mutate (k2 i) e c2")
  from mutate_without_eta [OF Cons.prems, of "k1 i" e "k2 i"] m1 m2
  have r: "r1 = r2" and d: "without_eta d1 = without_eta d2" by simp_all
  show ?case
  proof (cases r1)
    case None
    with m1 m2 r Cons.IH [OF d, of "Suc i"] show ?thesis by simp
  next
    case (Some err)
    with r have "r2 = Some err" by simp
    with Some m1 m2 d show ?thesis by simp
  qed
qed

text \<open>
  C2, as amended. Two replays of the same event sequence from the same booking, the
  clock reading whatever it reads in each, end with the same outcome (both succeed, or
  both fail with the same exception) and with projections that are equal in every field
  other than the estimated time of arrival.
\<close>

theorem replay_deterministic_apart_from_eta:
  assumes "reconstruct clock1 orig dest deadline es = (p1, r1)"
    and "reconstruct clock2 orig dest deadline es = (p2, r2)"
  shows "r1 = r2 \<and> origin p1 = origin p2 \<and> destination p1 = destination p2 \<and>
    arrival_deadline p1 = arrival_deadline p2 \<and> transport_status p1 = transport_status p2 \<and>
    routing_status p1 = routing_status p2 \<and> is_misdirected p1 = is_misdirected p2 \<and>
    next_expected_activity p1 = next_expected_activity p2 \<and> route p1 = route p2 \<and>
    last_known_location p1 = last_known_location p2 \<and>
    current_voyage_number p1 = current_voyage_number p2"
proof -
  from replay_without_eta [OF refl, of clock1 0 "new_booking orig dest deadline" es clock2] assms
  have r: "r1 = r2" and w: "without_eta p1 = without_eta p2"
    by (simp_all add: reconstruct_def)
  have sel: "\<And>f. f (without_eta p1) = f (without_eta p2)" using w by simp
  from sel [of origin] sel [of destination] sel [of arrival_deadline] sel [of transport_status]
    sel [of routing_status] sel [of is_misdirected] sel [of next_expected_activity]
    sel [of route] sel [of last_known_location] sel [of current_voyage_number] r
  show ?thesis by (simp add: without_eta_def)
qed

text \<open>
  The whole scenario replayed with a clock that starts at 0 and with one that starts a
  day later: both replays succeed, and the two projections agree on the transport
  status, the route and the next expected activity.
\<close>

theorem replay_deterministic_apart_from_eta_witness:
  "snd (reconstruct (clock_from 0) HONGKONG STOCKHOLM 0 events_scenario) = None \<and>
   snd (reconstruct (clock_from 86400000000) HONGKONG STOCKHOLM 0 events_scenario) = None \<and>
   transport_status (fst (reconstruct (clock_from 0) HONGKONG STOCKHOLM 0 events_scenario)) =
   transport_status
     (fst (reconstruct (clock_from 86400000000) HONGKONG STOCKHOLM 0 events_scenario)) \<and>
   route (fst (reconstruct (clock_from 0) HONGKONG STOCKHOLM 0 events_scenario)) =
   route (fst (reconstruct (clock_from 86400000000) HONGKONG STOCKHOLM 0 events_scenario)) \<and>
   next_expected_activity
     (fst (reconstruct (clock_from 0) HONGKONG STOCKHOLM 0 events_scenario)) =
   next_expected_activity
     (fst (reconstruct (clock_from 86400000000) HONGKONG STOCKHOLM 0 events_scenario))"
proof -
  have s1: "snd (reconstruct (clock_from 0) HONGKONG STOCKHOLM 0 events_scenario) = None"
    by (simp add: run_defs)
  have s2: "snd (reconstruct (clock_from 86400000000) HONGKONG STOCKHOLM 0 events_scenario) = None"
    by (simp add: run_defs)
  from replay_deterministic_apart_from_eta
    [OF surjective_pairing surjective_pairing, of "clock_from 0" HONGKONG STOCKHOLM 0
      events_scenario "clock_from 86400000000"] s1 s2
  show ?thesis by simp
qed

text \<open>
  C2 as it is stated fails: the same one-event sequence, replayed with a clock that
  starts at 0 and with one that starts a day later, gives two projections with
  different estimated times of arrival.
\<close>

theorem replay_eta_depends_on_clock:
  "estimated_time_of_arrival
     (fst (reconstruct (clock_from 0) HONGKONG STOCKHOLM 0
        [RouteAssigned route_HONGKONG_STOCKHOLM])) \<noteq>
   estimated_time_of_arrival
     (fst (reconstruct (clock_from 86400000000) HONGKONG STOCKHOLM 0
        [RouteAssigned route_HONGKONG_STOCKHOLM]))"
  by (simp add: reconstruct_def clock_from_def timedelta_weeks_def)

section \<open>Invariants of the reachable states\<close>

subsection \<open>The current voyage and the transport status\<close>

lemma step_voyage_inv:
  assumes "current_voyage_number c \<noteq> None \<longrightarrow> transport_status c = ''ONBOARD_CARRIER''"
    and "off_carrier_at_receive_claim c e" and "mutate now e c = (c', None)"
  shows "current_voyage_number c' \<noteq> None \<longrightarrow> transport_status c' = ''ONBOARD_CARRIER''"
proof (cases e)
  case (DestinationChanged d)
  with assms show ?thesis by auto
next
  case (RouteAssigned r)
  with assms show ?thesis by auto
next
  case (HandlingEventRegistered v l a)
  show ?thesis
  proof (cases a)
    case (Member h)
    with assms HandlingEventRegistered show ?thesis
      by (cases h)
         (auto simp: mutate_branch_defs Let_def
            split: option.splits sum.splits list.splits if_splits)
  next
    case (NonMember s)
    with assms HandlingEventRegistered show ?thesis by (auto split: option.splits)
  qed
qed

text \<open>
  C3, as amended. In every state reached from a new booking by events of the three
  kinds, each mutation succeeding, in which a \<^verbatim>\<open>RECEIVE\<close> or a \<^verbatim>\<open>CLAIM\<close> is applied only
  while the current voyage number is \<^verbatim>\<open>None\<close>: if the current voyage number is not
  \<^verbatim>\<open>None\<close> then the transport status is \<^verbatim>\<open>ONBOARD_CARRIER\<close>.
\<close>

theorem voyage_implies_onboard:
  assumes "reachable_under off_carrier_at_receive_claim c"
    and "current_voyage_number c \<noteq> None"
  shows "transport_status c = ''ONBOARD_CARRIER''"
proof -
  have "current_voyage_number c \<noteq> None \<longrightarrow> transport_status c = ''ONBOARD_CARRIER''"
    using assms(1)
  proof (rule reachable_under_invariant)
    fix orig dest deadline
    show "current_voyage_number (new_booking orig dest deadline) \<noteq> None \<longrightarrow> transport_status (new_booking orig dest deadline) = ''ONBOARD_CARRIER''"
      by (simp add: new_booking_def)
  next
    fix c e now c'
    assume "current_voyage_number c \<noteq> None \<longrightarrow> transport_status c = ''ONBOARD_CARRIER''"
      and "off_carrier_at_receive_claim c e" and "mutate now e c = (c', None)"
    then show "current_voyage_number c' \<noteq> None \<longrightarrow> transport_status c' = ''ONBOARD_CARRIER''"
      by (rule step_voyage_inv)
  qed
  with assms(2) show ?thesis by simp
qed

text \<open>The scenario's cargo after its loading in Hongkong is on voyage V1 and on board.\<close>

theorem voyage_implies_onboard_witness:
  "reachable_under off_carrier_at_receive_claim
     (fst (reconstruct (clock_from 0) HONGKONG STOCKHOLM 0 events_loaded)) \<and>
   current_voyage_number
     (fst (reconstruct (clock_from 0) HONGKONG STOCKHOLM 0 events_loaded)) = Some ''V1'' \<and>
   transport_status
     (fst (reconstruct (clock_from 0) HONGKONG STOCKHOLM 0 events_loaded)) = ''ONBOARD_CARRIER''"
proof -
  let ?c = "fst (reconstruct (clock_from 0) HONGKONG STOCKHOLM 0 events_loaded)"
  have r: "reachable_under off_carrier_at_receive_claim ?c"
    by (rule reconstruct_reachable) (simp add: run_defs)
  have v: "current_voyage_number ?c = Some ''V1''"
    by (simp add: run_defs)
  then have "current_voyage_number ?c \<noteq> None" by simp
  with r have "transport_status ?c = ''ONBOARD_CARRIER''"
    by (rule voyage_implies_onboard)
  with r v show ?thesis by simp
qed

text \<open>
  C3 as it is stated fails: a cargo that is claimed right after its loading, with no
  unloading between, is reachable, is on voyage V1 and has the transport status
  \<^verbatim>\<open>CLAIMED\<close>. The \<^verbatim>\<open>CLAIM\<close> branch (like the \<^verbatim>\<open>RECEIVE\<close> branch) does not assign the
  current voyage number.
\<close>

theorem claimed_while_on_voyage:
  "reachable (fst (reconstruct (clock_from 0) HONGKONG STOCKHOLM 0 events_claim_on_voyage)) \<and>
   current_voyage_number
     (fst (reconstruct (clock_from 0) HONGKONG STOCKHOLM 0 events_claim_on_voyage)) =
     Some ''V1'' \<and>
   transport_status
     (fst (reconstruct (clock_from 0) HONGKONG STOCKHOLM 0 events_claim_on_voyage)) =
     ''CLAIMED''"
proof -
  have "reachable (fst (reconstruct (clock_from 0) HONGKONG STOCKHOLM 0 events_claim_on_voyage))"
    unfolding reachable_def
    by (rule reconstruct_reachable) (simp add: run_defs events_claim_on_voyage_def any_event_def)
  then show ?thesis by (simp add: run_defs events_claim_on_voyage_def)
qed

subsection \<open>Misdirection and the next expected activity\<close>

lemma step_misdirected_inv:
  assumes "is_misdirected c \<longrightarrow> next_expected_activity c = None"
    and "on_route_at_handling c e" and "mutate now e c = (c', None)"
  shows "is_misdirected c' \<longrightarrow> next_expected_activity c' = None"
proof (cases e)
  case (DestinationChanged d)
  with assms show ?thesis by auto
next
  case (RouteAssigned r)
  with assms show ?thesis by auto
next
  case (HandlingEventRegistered v l a)
  show ?thesis
  proof (cases a)
    case (NonMember s)
    with assms HandlingEventRegistered show ?thesis by (auto split: option.splits)
  next
    case (Member h)
    show ?thesis
    proof (cases h)
      case CLAIM
      with assms HandlingEventRegistered Member show ?thesis
        by (auto simp: mutate_CLAIM_def split: option.splits)
    next
      case RECEIVE
      with assms HandlingEventRegistered Member show ?thesis
        by (auto simp: mutate_RECEIVE_def Let_def split: option.splits list.splits)
    next
      case LOAD
      with assms HandlingEventRegistered Member show ?thesis
        by (auto simp: mutate_LOAD_def Let_def split: option.splits sum.splits)
    next
      case UNLOAD
      with assms HandlingEventRegistered Member show ?thesis
        by (auto simp: mutate_UNLOAD_def Let_def split: option.splits sum.splits if_splits)
    qed
  qed
qed

text \<open>
  C4, as amended. In every state reached from a new booking by events of the three
  kinds, each mutation succeeding, in which a \<^verbatim>\<open>RECEIVE\<close>, a \<^verbatim>\<open>LOAD\<close> or an \<^verbatim>\<open>UNLOAD\<close> is
  applied only to a cargo that is not misdirected: if the cargo is misdirected then its
  next expected activity is \<^verbatim>\<open>None\<close>. So after a misdirecting \<^verbatim>\<open>UNLOAD\<close> the next
  expected activity stays \<^verbatim>\<open>None\<close> for as long as the flag is set, provided the next
  such handling event comes after a new route.
\<close>

theorem misdirected_implies_no_activity:
  assumes "reachable_under on_route_at_handling c"
    and "is_misdirected c"
  shows "next_expected_activity c = None"
proof -
  have "is_misdirected c \<longrightarrow> next_expected_activity c = None"
    using assms(1)
  proof (rule reachable_under_invariant)
    fix orig dest deadline
    show "is_misdirected (new_booking orig dest deadline) \<longrightarrow>
        next_expected_activity (new_booking orig dest deadline) = None"
      by (simp add: new_booking_def)
  next
    fix c e now c'
    assume "is_misdirected c \<longrightarrow> next_expected_activity c = None"
      and "on_route_at_handling c e" and "mutate now e c = (c', None)"
    then show "is_misdirected c' \<longrightarrow> next_expected_activity c' = None"
      by (rule step_misdirected_inv)
  qed
  with assms(2) show ?thesis by simp
qed

text \<open>The scenario's cargo after its unloading in Tokyo is misdirected.\<close>

theorem misdirected_implies_no_activity_witness:
  "reachable_under on_route_at_handling
     (fst (reconstruct (clock_from 0) HONGKONG STOCKHOLM 0 events_misdirected)) \<and>
   is_misdirected (fst (reconstruct (clock_from 0) HONGKONG STOCKHOLM 0 events_misdirected)) \<and>
   next_expected_activity
     (fst (reconstruct (clock_from 0) HONGKONG STOCKHOLM 0 events_misdirected)) = None"
proof -
  let ?c = "fst (reconstruct (clock_from 0) HONGKONG STOCKHOLM 0 events_misdirected)"
  have r: "reachable_under on_route_at_handling ?c"
    by (rule reconstruct_reachable) (simp add: run_defs)
  have m: "is_misdirected ?c"
    by (simp add: run_defs)
  with r have "next_expected_activity ?c = None"
    by (rule misdirected_implies_no_activity)
  with r m show ?thesis by simp
qed

text \<open>
  C4 as it is stated fails: the cargo that is received in Tokyo after the misdirecting
  unloading there, with no new route between, is reachable, is still misdirected and
  expects a loading in Tokyo.
\<close>

theorem misdirected_with_activity:
  "reachable
     (fst (reconstruct (clock_from 0) HONGKONG STOCKHOLM 0 events_receive_when_misdirected)) \<and>
   is_misdirected
     (fst (reconstruct (clock_from 0) HONGKONG STOCKHOLM 0 events_receive_when_misdirected)) \<and>
   next_expected_activity
     (fst (reconstruct (clock_from 0) HONGKONG STOCKHOLM 0 events_receive_when_misdirected)) =
     Some (Activity3 LOAD TOKYO (Some ''V1''))"
proof -
  have "reachable
     (fst (reconstruct (clock_from 0) HONGKONG STOCKHOLM 0 events_receive_when_misdirected))"
    unfolding reachable_def
    by (rule reconstruct_reachable)
       (simp add: run_defs events_receive_when_misdirected_def any_event_def)
  then show ?thesis by (simp add: run_defs events_receive_when_misdirected_def)
qed

subsection \<open>A claimed cargo and the next expected activity\<close>

lemma step_claimed_inv:
  assumes "transport_status c = ''CLAIMED'' \<longrightarrow> next_expected_activity c = None"
    and "unclaimed_at_routing c e" and "mutate now e c = (c', None)"
  shows "transport_status c' = ''CLAIMED'' \<longrightarrow> next_expected_activity c' = None"
proof (cases e)
  case (DestinationChanged d)
  with assms show ?thesis by auto
next
  case (RouteAssigned r)
  with assms show ?thesis by auto
next
  case (HandlingEventRegistered v l a)
  from assms(3) HandlingEventRegistered obtain r where r: "route c = Some r"
    by (auto split: option.splits)
  show ?thesis
  proof (cases a)
    case (NonMember s)
    with assms(3) HandlingEventRegistered r show ?thesis by simp
  next
    case (Member h)
    from assms(3) HandlingEventRegistered r Member
    have "transport_status c' \<noteq> ''CLAIMED'' \<or> next_expected_activity c' = None"
      by (cases h)
         (auto simp: mutate_branch_defs Let_def split: sum.splits list.splits option.splits
            if_splits)
    then show ?thesis by blast
  qed
qed

text \<open>
  C5, as amended. In every state reached from a new booking by events of the three
  kinds, each mutation succeeding, in which no route is assigned to a cargo whose
  transport status is \<^verbatim>\<open>CLAIMED\<close>: if the transport status is \<^verbatim>\<open>CLAIMED\<close> then the next
  expected activity is \<^verbatim>\<open>None\<close>. Handling events and changes of destination are not
  restricted.
\<close>

theorem claimed_implies_no_activity:
  assumes "reachable_under unclaimed_at_routing c"
    and "transport_status c = ''CLAIMED''"
  shows "next_expected_activity c = None"
proof -
  have "transport_status c = ''CLAIMED'' \<longrightarrow> next_expected_activity c = None"
    using assms(1)
  proof (rule reachable_under_invariant)
    fix orig dest deadline
    show "transport_status (new_booking orig dest deadline) = ''CLAIMED'' \<longrightarrow>
        next_expected_activity (new_booking orig dest deadline) = None"
      by (simp add: new_booking_def)
  next
    fix c e now c'
    assume "transport_status c = ''CLAIMED'' \<longrightarrow> next_expected_activity c = None"
      and "unclaimed_at_routing c e" and "mutate now e c = (c', None)"
    then show "transport_status c' = ''CLAIMED'' \<longrightarrow> next_expected_activity c' = None"
      by (rule step_claimed_inv)
  qed
  with assms(2) show ?thesis by simp
qed

text \<open>The cargo at the end of the whole scenario is claimed.\<close>

theorem claimed_implies_no_activity_witness:
  "reachable_under unclaimed_at_routing
     (fst (reconstruct (clock_from 0) HONGKONG STOCKHOLM 0 events_scenario)) \<and>
   transport_status (fst (reconstruct (clock_from 0) HONGKONG STOCKHOLM 0 events_scenario)) =
     ''CLAIMED'' \<and>
   next_expected_activity
     (fst (reconstruct (clock_from 0) HONGKONG STOCKHOLM 0 events_scenario)) = None"
proof -
  let ?c = "fst (reconstruct (clock_from 0) HONGKONG STOCKHOLM 0 events_scenario)"
  have r: "reachable_under unclaimed_at_routing ?c"
    by (rule reconstruct_reachable) (simp add: run_defs)
  have t: "transport_status ?c = ''CLAIMED''"
    by (simp add: run_defs)
  with r have "next_expected_activity ?c = None"
    by (rule claimed_implies_no_activity)
  with r t show ?thesis by simp
qed

text \<open>
  C5 as it is stated fails: the claimed cargo of the scenario, assigned a route once
  more, is reachable, has the transport status \<^verbatim>\<open>CLAIMED\<close> and expects to be received
  at its origin.
\<close>

theorem claimed_with_activity:
  "reachable (fst (reconstruct (clock_from 0) HONGKONG STOCKHOLM 0 events_route_after_claim)) \<and>
   transport_status
     (fst (reconstruct (clock_from 0) HONGKONG STOCKHOLM 0 events_route_after_claim)) =
     ''CLAIMED'' \<and>
   next_expected_activity
     (fst (reconstruct (clock_from 0) HONGKONG STOCKHOLM 0 events_route_after_claim)) =
     Some (Activity2 RECEIVE HONGKONG)"
proof -
  have "reachable
     (fst (reconstruct (clock_from 0) HONGKONG STOCKHOLM 0 events_route_after_claim))"
    unfolding reachable_def
    by (rule reconstruct_reachable) (simp add: run_defs events_route_after_claim_def any_event_def)
  then show ?thesis by (simp add: run_defs events_route_after_claim_def)
qed

section \<open>The effect of the single events\<close>

text \<open>
  C6. Applying a \<open>RouteAssigned\<close> event to any cargo state succeeds and gives a state in
  which the route is the event's itinerary, the routing status is \<^verbatim>\<open>ROUTED\<close>, the next
  expected activity is \<^verbatim>\<open>(RECEIVE, origin)\<close> with the cargo's own origin, the cargo is
  not misdirected, and the estimated time of arrival is the time of the mutation plus
  one week; the other six fields are unchanged.
\<close>

theorem route_assigned_effect:
  assumes "mutate now (RouteAssigned r) c = (c', err)"
  shows "err = None \<and> route c' = Some r \<and> routing_status c' = ''ROUTED'' \<and>
    next_expected_activity c' = Some (Activity2 RECEIVE (origin c)) \<and>
    is_misdirected c' = False \<and>
    estimated_time_of_arrival c' = Some (now + timedelta_weeks 1) \<and>
    origin c' = origin c \<and> destination c' = destination c \<and>
    arrival_deadline c' = arrival_deadline c \<and> transport_status c' = transport_status c \<and>
    last_known_location c' = last_known_location c \<and>
    current_voyage_number c' = current_voyage_number c"
  using assms by auto

text \<open>The second route of the scenario, assigned to the misdirected cargo in Tokyo.\<close>

theorem route_assigned_effect_witness:
  "is_misdirected (fst (reconstruct (clock_from 0) HONGKONG STOCKHOLM 0 events_misdirected)) \<and>
   snd (mutate 86400000000 (RouteAssigned route_TOKYO_STOCKHOLM)
     (fst (reconstruct (clock_from 0) HONGKONG STOCKHOLM 0 events_misdirected))) = None \<and>
   is_misdirected
     (fst (mutate 86400000000 (RouteAssigned route_TOKYO_STOCKHOLM)
        (fst (reconstruct (clock_from 0) HONGKONG STOCKHOLM 0 events_misdirected)))) = False \<and>
   estimated_time_of_arrival
     (fst (mutate 86400000000 (RouteAssigned route_TOKYO_STOCKHOLM)
        (fst (reconstruct (clock_from 0) HONGKONG STOCKHOLM 0 events_misdirected)))) =
     Some 691200000000 \<and>
   next_expected_activity
     (fst (mutate 86400000000 (RouteAssigned route_TOKYO_STOCKHOLM)
        (fst (reconstruct (clock_from 0) HONGKONG STOCKHOLM 0 events_misdirected)))) =
     Some (Activity2 RECEIVE HONGKONG)"
proof -
  let ?c = "fst (reconstruct (clock_from 0) HONGKONG STOCKHOLM 0 events_misdirected)"
  have m: "is_misdirected ?c" and o: "origin ?c = HONGKONG"
    by (simp_all add: run_defs)
  from route_assigned_effect [OF surjective_pairing, of 86400000000 route_TOKYO_STOCKHOLM ?c] m o
  show ?thesis by (simp add: timedelta_weeks_def)
qed

text \<open>
  C9. Applying a \<open>DestinationChanged\<close> event with destination \<open>d\<close> to any cargo state,
  at any transport or routing status, succeeds and gives a state whose destination is
  \<open>d\<close> and whose other ten fields are unchanged.
\<close>

theorem destination_changed_effect:
  assumes "mutate now (DestinationChanged d) c = (c', err)"
  shows "err = None \<and> destination c' = d \<and> origin c' = origin c \<and>
    arrival_deadline c' = arrival_deadline c \<and> transport_status c' = transport_status c \<and>
    routing_status c' = routing_status c \<and> is_misdirected c' = is_misdirected c \<and>
    estimated_time_of_arrival c' = estimated_time_of_arrival c \<and>
    next_expected_activity c' = next_expected_activity c \<and> route c' = route c \<and>
    last_known_location c' = last_known_location c \<and>
    current_voyage_number c' = current_voyage_number c \<and>
    c' = c\<lparr>destination := d\<rparr>"
  using assms by auto

text \<open>The destination of the loaded cargo of the scenario, changed to Tokyo.\<close>

theorem destination_changed_effect_witness:
  "mutate 0 (DestinationChanged TOKYO)
     (fst (reconstruct (clock_from 0) HONGKONG STOCKHOLM 0 events_loaded)) =
   ((fst (reconstruct (clock_from 0) HONGKONG STOCKHOLM 0 events_loaded))
      \<lparr>destination := TOKYO\<rparr>, None) \<and>
   transport_status (fst (reconstruct (clock_from 0) HONGKONG STOCKHOLM 0 events_loaded)) =
     ''ONBOARD_CARRIER''"
proof -
  let ?c = "fst (reconstruct (clock_from 0) HONGKONG STOCKHOLM 0 events_loaded)"
  have t: "transport_status ?c = ''ONBOARD_CARRIER''"
    by (simp add: run_defs)
  from destination_changed_effect [OF surjective_pairing, of 0 TOKYO ?c] t
  show ?thesis by (simp add: prod_eq_iff)
qed

subsection \<open>Loading\<close>

text \<open>The loop of the \<^verbatim>\<open>LOAD\<close> branch finds the first leg that matches, if there is one.\<close>

lemma load_loop_find:
  "load_loop ls loc v =
     (case find (load_leg_matches loc v) ls of
        None \<Rightarrow> Inl (LegNotFound loc v)
      | Some leg \<Rightarrow>
          (case Location_getitem (leg_destination leg) of
             None \<Rightarrow> Inl (KeyError (leg_destination leg))
           | Some d \<Rightarrow> Inr (Activity3 UNLOAD d v)))"
  by (induction ls) (simp_all add: load_leg_matches_def)

text \<open>
  C7, as amended. For a cargo with a route and a \<^verbatim>\<open>LOAD\<close> event, the mutation raises
  the "can't find leg" exception if and only if no leg of the route has both its origin
  equal to the event's location and its voyage number equal to the event's. When there
  is such a leg and the destination of the first one is the name of a location \<open>d\<close>, the
  mutation succeeds, and the resulting state has the transport status
  \<^verbatim>\<open>ONBOARD_CARRIER\<close>, the event's voyage number as its current voyage number and the
  next expected activity \<^verbatim>\<open>(UNLOAD, d, voyage number)\<close>. When the destination of the
  first such leg is the name of no location, the mutation raises a \<^verbatim>\<open>KeyError\<close>.
\<close>

theorem load_effect:
  assumes "route c = Some r"
    and "mutate now (HandlingEventRegistered v loc (Member LOAD)) c = (c', err)"
  shows "(err = Some (LegNotFound loc v) \<longleftrightarrow>
            \<not> (\<exists>leg \<in> set (legs r). load_leg_matches loc v leg)) \<and>
    (\<forall>leg. find (load_leg_matches loc v) (legs r) = Some leg \<longrightarrow>
       (case Location_getitem (leg_destination leg) of
          Some d \<Rightarrow> err = None \<and> transport_status c' = ''ONBOARD_CARRIER'' \<and>
            current_voyage_number c' = v \<and>
            next_expected_activity c' = Some (Activity3 UNLOAD d v)
        | None \<Rightarrow> err = Some (KeyError (leg_destination leg))))"
proof (cases "find (load_leg_matches loc v) (legs r)")
  case None
  then have "\<not> (\<exists>leg \<in> set (legs r). load_leg_matches loc v leg)"
    by (simp add: find_None_iff)
  with assms None show ?thesis
    by (auto simp: mutate_LOAD_def Let_def load_loop_find)
next
  case (Some leg)
  then have "\<exists>leg \<in> set (legs r). load_leg_matches loc v leg"
    by (auto simp: find_Some_iff)
  with assms Some show ?thesis
    by (auto simp: mutate_LOAD_def Let_def load_loop_find split: option.splits)
qed

text \<open>
  The loading of the scenario, onto voyage V1 in Hongkong: the first leg of the route
  matches, and the cargo then expects to be unloaded in New York.
\<close>

theorem load_effect_witness:
  "route routed_cargo = Some route_HONGKONG_STOCKHOLM \<and>
   find (load_leg_matches HONGKONG (Some ''V1'')) (legs route_HONGKONG_STOCKHOLM) =
     Some \<lparr>leg_origin = ''HONGKONG'', leg_destination = ''NEWYORK'', leg_voyage_number = ''V1''\<rparr> \<and>
   snd (mutate 0 (HandlingEventRegistered (Some ''V1'') HONGKONG (Member LOAD)) routed_cargo) =
     None \<and>
   transport_status
     (fst (mutate 0 (HandlingEventRegistered (Some ''V1'') HONGKONG (Member LOAD)) routed_cargo)) =
     ''ONBOARD_CARRIER'' \<and>
   current_voyage_number
     (fst (mutate 0 (HandlingEventRegistered (Some ''V1'') HONGKONG (Member LOAD)) routed_cargo)) =
     Some ''V1'' \<and>
   next_expected_activity
     (fst (mutate 0 (HandlingEventRegistered (Some ''V1'') HONGKONG (Member LOAD)) routed_cargo)) =
     Some (Activity3 UNLOAD NEWYORK (Some ''V1''))"
proof -
  have r: "route routed_cargo = Some route_HONGKONG_STOCKHOLM"
    by (simp add: routed_cargo_eq)
  have f: "find (load_leg_matches HONGKONG (Some ''V1'')) (legs route_HONGKONG_STOCKHOLM) =
     Some \<lparr>leg_origin = ''HONGKONG'', leg_destination = ''NEWYORK'', leg_voyage_number = ''V1''\<rparr>"
    by (simp add: route_HONGKONG_STOCKHOLM_def load_leg_matches_def)
  have d: "Location_getitem ''NEWYORK'' = Some NEWYORK"
    by (simp add: Location_getitem_def)
  from load_effect [OF r surjective_pairing, of 0 "Some ''V1''" HONGKONG] f d r
  show ?thesis by simp
qed

text \<open>
  C7 as it is stated fails: the only leg of this route starts in Hongkong on voyage V1,
  so a leg for the event exists, and yet the mutation fails, with a \<^verbatim>\<open>KeyError\<close>, since
  the leg's destination is a string that names no member of \<open>Location\<close>.
\<close>

theorem load_fails_though_leg_exists:
  "find (load_leg_matches HONGKONG (Some ''V1'')) (legs route_HONGKONG_ATLANTIS) =
     Some \<lparr>leg_origin = ''HONGKONG'', leg_destination = ''ATLANTIS'', leg_voyage_number = ''V1''\<rparr> \<and>
   snd (reconstruct (clock_from 0) HONGKONG STOCKHOLM 0 [RouteAssigned route_HONGKONG_ATLANTIS]) =
     None \<and>
   route (fst (reconstruct (clock_from 0) HONGKONG STOCKHOLM 0
     [RouteAssigned route_HONGKONG_ATLANTIS])) = Some route_HONGKONG_ATLANTIS \<and>
   snd (reconstruct (clock_from 0) HONGKONG STOCKHOLM 0
     [RouteAssigned route_HONGKONG_ATLANTIS,
      HandlingEventRegistered (Some ''V1'') HONGKONG (Member LOAD)]) =
     Some (KeyError ''ATLANTIS'')"
  by (simp add: run_defs route_HONGKONG_ATLANTIS_def load_leg_matches_def)

subsection \<open>Unloading\<close>

text \<open>
  C8. For a cargo with a route and an \<^verbatim>\<open>UNLOAD\<close> event, the state that the mutation
  leaves has no current voyage number, the event's location as its last known location
  and the transport status \<^verbatim>\<open>IN_PORT\<close>. If the location is the cargo's destination, the
  mutation succeeds and the next expected activity is \<^verbatim>\<open>(CLAIM, location)\<close>. If the
  location is not the destination and is the destination of no leg of the route, the
  mutation succeeds, the cargo is misdirected and its next expected activity is
  \<^verbatim>\<open>None\<close>.
\<close>

theorem unload_effect:
  assumes "route c = Some r"
    and "mutate now (HandlingEventRegistered v loc (Member UNLOAD)) c = (c', err)"
  shows "current_voyage_number c' = None \<and> last_known_location c' = Some loc \<and>
    transport_status c' = ''IN_PORT'' \<and>
    (loc = destination c \<longrightarrow>
       next_expected_activity c' = Some (Activity2 CLAIM loc) \<and> err = None) \<and>
    (loc \<noteq> destination c \<and> Location_value loc \<notin> set (map leg_destination (legs r)) \<longrightarrow>
       is_misdirected c' \<and> next_expected_activity c' = None \<and> err = None)"
proof (cases "loc = destination c")
  case True
  with assms show ?thesis
    by (simp add: mutate_UNLOAD_def Let_def) auto
next
  case False
  show ?thesis
  proof (cases "Location_value loc \<in> set (map leg_destination (legs r))")
    case False
    with assms \<open>loc \<noteq> destination c\<close> show ?thesis
      by (simp add: mutate_UNLOAD_def Let_def) auto
  next
    case True
    with assms \<open>loc \<noteq> destination c\<close> show ?thesis
      by (auto simp: mutate_UNLOAD_def Let_def split: sum.splits option.splits)
  qed
qed

text \<open>
  Two unloadings of the loaded cargo of the scenario: in Tokyo, which is on no leg of
  the route, and in Stockholm, the cargo's destination.
\<close>

theorem unload_effect_witness:
  "route (fst (reconstruct (clock_from 0) HONGKONG STOCKHOLM 0 events_loaded)) =
     Some route_HONGKONG_STOCKHOLM \<and>
   destination (fst (reconstruct (clock_from 0) HONGKONG STOCKHOLM 0 events_loaded)) =
     STOCKHOLM \<and>
   Location_value TOKYO \<notin> set (map leg_destination (legs route_HONGKONG_STOCKHOLM)) \<and>
   mutate 0 (HandlingEventRegistered (Some ''V1'') TOKYO (Member UNLOAD))
     (fst (reconstruct (clock_from 0) HONGKONG STOCKHOLM 0 events_loaded)) =
   ((fst (reconstruct (clock_from 0) HONGKONG STOCKHOLM 0 events_loaded))
      \<lparr>current_voyage_number := None, last_known_location := Some TOKYO,
       transport_status := ''IN_PORT'', is_misdirected := True,
       next_expected_activity := None\<rparr>, None) \<and>
   mutate 0 (HandlingEventRegistered (Some ''V1'') STOCKHOLM (Member UNLOAD))
     (fst (reconstruct (clock_from 0) HONGKONG STOCKHOLM 0 events_loaded)) =
   ((fst (reconstruct (clock_from 0) HONGKONG STOCKHOLM 0 events_loaded))
      \<lparr>current_voyage_number := None, last_known_location := Some STOCKHOLM,
       transport_status := ''IN_PORT'',
       next_expected_activity := Some (Activity2 CLAIM STOCKHOLM)\<rparr>, None)"
proof -
  let ?c = "fst (reconstruct (clock_from 0) HONGKONG STOCKHOLM 0 events_loaded)"
  have r: "route ?c = Some route_HONGKONG_STOCKHOLM"
    by (simp add: run_defs)
  have d: "destination ?c = STOCKHOLM"
    by (simp add: run_defs)
  have n: "Location_value TOKYO \<notin> set (map leg_destination (legs route_HONGKONG_STOCKHOLM))"
    by (simp add: route_HONGKONG_STOCKHOLM_def)
  have t: "mutate 0 (HandlingEventRegistered (Some ''V1'') TOKYO (Member UNLOAD)) ?c =
      (?c\<lparr>current_voyage_number := None, last_known_location := Some TOKYO,
          transport_status := ''IN_PORT'', is_misdirected := True,
          next_expected_activity := None\<rparr>, None)"
    using n by (simp add: r d mutate_UNLOAD_def Let_def)
  have s: "mutate 0 (HandlingEventRegistered (Some ''V1'') STOCKHOLM (Member UNLOAD)) ?c =
      (?c\<lparr>current_voyage_number := None, last_known_location := Some STOCKHOLM,
          transport_status := ''IN_PORT'',
          next_expected_activity := Some (Activity2 CLAIM STOCKHOLM)\<rparr>, None)"
    by (simp add: r d mutate_UNLOAD_def Let_def)
  from unload_effect [OF r t] unload_effect [OF r s] r d n t s
  show ?thesis by simp
qed

text \<open>
  C10. The claim is that an \<^verbatim>\<open>UNLOAD\<close> at a location that is not the cargo's destination
  and is the destination of some leg always finds the leg after the one with the
  event's voyage number, and finds it starting at the event's location. The mutation
  does not secure this. The cargo of the scenario is re-destined to Tokyo and then
  handled along its route, succeeding up to the loading in New York; its unloading from
  voyage V2 in Stockholm, the end of the last leg, raises an \<^verbatim>\<open>IndexError\<close> at
  \<^verbatim>\<open>legs[i + 1]\<close>. So does, on the routed cargo, an unloading in New York reported for
  voyage V2; and an unloading of the re-destined cargo in Stockholm reported for voyage
  V1 fails the assertion on the origin of the next leg.
\<close>

theorem unload_next_leg_failures:
  "snd (reconstruct (clock_from 0) HONGKONG STOCKHOLM 0 events_redestined_loaded) = None \<and>
   destination (fst (reconstruct (clock_from 0) HONGKONG STOCKHOLM 0 events_redestined_loaded)) =
     TOKYO \<and>
   route (fst (reconstruct (clock_from 0) HONGKONG STOCKHOLM 0 events_redestined_loaded)) =
     Some route_HONGKONG_STOCKHOLM \<and>
   Location_value STOCKHOLM \<in> set (map leg_destination (legs route_HONGKONG_STOCKHOLM)) \<and>
   snd (reconstruct (clock_from 0) HONGKONG STOCKHOLM 0 events_redestined_unloaded) =
     Some IndexError \<and>
   Location_value NEWYORK \<in> set (map leg_destination (legs route_HONGKONG_STOCKHOLM)) \<and>
   snd (mutate 0 (HandlingEventRegistered (Some ''V2'') NEWYORK (Member UNLOAD)) routed_cargo) =
     Some IndexError \<and>
   snd (mutate 0 (HandlingEventRegistered (Some ''V1'') STOCKHOLM (Member UNLOAD))
     (routed_cargo\<lparr>destination := TOKYO\<rparr>)) = Some AssertionError"
proof -
  have "snd (reconstruct (clock_from 0) HONGKONG STOCKHOLM 0 events_redestined_loaded) = None"
    and "destination
      (fst (reconstruct (clock_from 0) HONGKONG STOCKHOLM 0 events_redestined_loaded)) = TOKYO"
    and "route (fst (reconstruct (clock_from 0) HONGKONG STOCKHOLM 0 events_redestined_loaded)) =
      Some route_HONGKONG_STOCKHOLM"
    by (simp_all add: run_defs events_redestined_loaded_def)
  moreover have
    "snd (reconstruct (clock_from 0) HONGKONG STOCKHOLM 0 events_redestined_unloaded) =
      Some IndexError"
    by (simp add: run_defs events_redestined_loaded_def events_redestined_unloaded_def)
  moreover have
    "Location_value STOCKHOLM \<in> set (map leg_destination (legs route_HONGKONG_STOCKHOLM))"
    and "Location_value NEWYORK \<in> set (map leg_destination (legs route_HONGKONG_STOCKHOLM))"
    by (simp_all add: route_HONGKONG_STOCKHOLM_def)
  moreover have
    "snd (mutate 0 (HandlingEventRegistered (Some ''V2'') NEWYORK (Member UNLOAD)) routed_cargo) =
      Some IndexError"
    and "snd (mutate 0 (HandlingEventRegistered (Some ''V1'') STOCKHOLM (Member UNLOAD))
      (routed_cargo\<lparr>destination := TOKYO\<rparr>)) = Some AssertionError"
    by (simp_all add: routed_cargo_eq run_defs)
  ultimately show ?thesis by simp
qed

end
